theory Spec2Isabelle
  imports Main "HOL-Library.AList"
begin

section \<open>Shared Python notions\<close>

text \<open>
  Exceptions are values. Each constructor is the Python exception class that the source
  raises (or that a library call made by the source raises); the string, where there is
  one, is the argument the exception is raised with. The message of an \<open>assert\<close> is not
  kept.
\<close>

datatype error =
    AssertionError
  | KeyError string
  | ValueError string
  | IndexError
  | FileNotFoundError string
  | OSError string
  | AttributeError
  | TypeError
  | OverflowError

text \<open>
  \<open>str.endswith\<close> and \<open>str.lower\<close>. Strings are ASCII here; \<open>lower\<close> maps the
  twenty-six capital letters to their small counterparts and leaves every other
  character alone.
\<close>

definition endswith :: "string \<Rightarrow> string \<Rightarrow> bool" where
  "endswith s suffix = (drop (length s - length suffix) s = suffix)"

definition lower_char :: "char \<Rightarrow> char" where
  "lower_char c =
     (case map_of (zip ''ABCDEFGHIJKLMNOPQRSTUVWXYZ'' ''abcdefghijklmnopqrstuvwxyz'') c of
        Some l \<Rightarrow> l
      | None \<Rightarrow> c)"

definition lower :: "string \<Rightarrow> string" where
  "lower s = map lower_char s"

text \<open>
  \<open>os.path.join\<close> of two components on a POSIX system: an absolute second component
  replaces the first, an empty first component or one that ends in a slash takes the
  second directly, otherwise a slash is put between them.
\<close>

definition path_join :: "string \<Rightarrow> string \<Rightarrow> string" where
  "path_join a b =
     (if take 1 b = ''/'' then b
      else if a = [] \<or> endswith a ''/'' then a @ b
      else a @ ''/'' @ b)"

section \<open>prototype.py: the model container\<close>

text \<open>
  The two loss functions imported from \<open>model.loss\<close> are opaque objects; \<open>other_object\<close>
  stands for whatever else a caller may put into a custom-objects dictionary. A Python
  dictionary is an association list in insertion order.
\<close>

datatype aux_object = dice_loss_2d | surface_channel_loss_2d | other_object nat

type_synonym custom_dict = "(string \<times> aux_object) list"

text \<open>
  The argument of \<open>_validate_custom_objects\<close>: a dictionary, a string, or a value of any
  other type (which has no \<open>lower\<close> method).
\<close>

datatype custom_arg = Dict custom_dict | Str string | NoStr

definition invalid_shortcut :: "string \<Rightarrow> string" where
  "invalid_shortcut s = ''Received invalid custom object shortcut keyword '' @ s @ ''.''"

fun validate_custom_objects :: "custom_arg \<Rightarrow> error + custom_dict" where
  "validate_custom_objects (Dict d) = Inr d"
| "validate_custom_objects (Str s) =
     (if lower s = ''dice'' then Inr [(''dice_loss_2d'', dice_loss_2d)]
      else if lower s = ''scl'' \<or> lower s = ''surface''
        then Inr [(''surface_loss_2d'', surface_channel_loss_2d)]
      else Inl (ValueError (invalid_shortcut s)))"
| "validate_custom_objects NoStr = Inl AttributeError"

text \<open>
  A loaded Keras model is known by the path it was read from and the custom objects it
  was deserialised with. \<open>load_model\<close> is Keras's: it is modelled as far as the container
  depends on it, failing where no saved model lies at the path. \<open>saved_models\<close> says at
  which paths a model file exists (\<open>os.path.exists\<close>), \<open>source_dir\<close> is
  \<open>os.path.dirname(__file__)\<close>.
\<close>

datatype keras_model = Model string "custom_dict option"

record model_store =
  saved_models :: "string \<Rightarrow> bool"
  source_dir :: string

definition load_model :: "model_store \<Rightarrow> string \<Rightarrow> custom_dict option \<Rightarrow> error + keras_model" where
  "load_model st path custom =
     (if saved_models st path then Inr (Model path custom) else Inl (OSError path))"

record FarmlandAnomalyModel =
  self_model :: "keras_model option"

definition stage1_names :: "string list" where
  "stage1_names = [''dice20'', ''20'', ''first'', ''stage1'']"

definition stage2_names :: "string list" where
  "stage2_names = [''scl40'', ''40'', ''middle'', ''stage2'', ''intermediate'']"

definition stage3_names :: "string list" where
  "stage3_names = [''dice60'', ''60'', ''last'', ''final'', ''stage3'']"

definition missing_model :: "string \<Rightarrow> string" where
  "missing_model p = ''Received a model path ending with .hdf5 ('' @ p @
     ''), but the path to the model does not exist.''"

text \<open>
  \<open>load_into\<close> is the assignment \<open>self.model = load_model(...)\<close>. \<open>load_shortcut\<close> is the
  body shared by the three shortcut branches: the custom objects are resolved first (they
  are an argument of the call), then the fixed artifact is loaded and stored in the
  container.
\<close>

definition load_into ::
  "model_store \<Rightarrow> FarmlandAnomalyModel \<Rightarrow> string \<Rightarrow> custom_dict option
     \<Rightarrow> error + FarmlandAnomalyModel" where
  "load_into st self path custom =
     (case load_model st path custom of
        Inl e \<Rightarrow> Inl e
      | Inr m \<Rightarrow> Inr (self\<lparr>self_model := Some m\<rparr>))"

definition load_shortcut ::
  "model_store \<Rightarrow> FarmlandAnomalyModel \<Rightarrow> string \<Rightarrow> string \<Rightarrow> error + FarmlandAnomalyModel" where
  "load_shortcut st self artifact shortcut =
     (case validate_custom_objects (Str shortcut) of
        Inl e \<Rightarrow> Inl e
      | Inr custom \<Rightarrow> load_into st self (path_join (source_dir st) artifact) (Some custom))"

definition initialize_model ::
  "model_store \<Rightarrow> FarmlandAnomalyModel \<Rightarrow> string \<Rightarrow> (string \<times> custom_arg) list
     \<Rightarrow> error + FarmlandAnomalyModel" where
  "initialize_model st self mdl kwargs =
     (if endswith mdl ''.hdf5'' \<or> endswith mdl ''.h5'' then
        (if saved_models st mdl then
           (case map_of kwargs ''custom_objects'' of
              Some arg \<Rightarrow>
                (case validate_custom_objects arg of
                   Inl e \<Rightarrow> Inl e
                 | Inr custom \<Rightarrow> load_into st self mdl (Some custom))
            | None \<Rightarrow> load_into st self mdl None)
         else Inl (FileNotFoundError (missing_model mdl)))
      else if lower mdl \<in> set stage1_names then
        load_shortcut st self ''logs/save/Model-Dice2D-20.hdf5'' ''dice''
      else if lower mdl \<in> set stage2_names then
        load_shortcut st self ''logs/save/Model-Dice-SCL-40.hdf5'' ''scl''
      else if lower mdl \<in> set stage3_names then
        load_shortcut st self ''logs/save/Model-Dice-SCL-Dice-60.hdf5'' ''dice''
      else Inr self)"

text \<open>The constructor: the model attribute starts as \<open>None\<close>, then is initialised.\<close>

definition init_FarmlandAnomalyModel ::
  "model_store \<Rightarrow> string \<Rightarrow> (string \<times> custom_arg) list \<Rightarrow> error + FarmlandAnomalyModel" where
  "init_FarmlandAnomalyModel st mdl kwargs =
     initialize_model st \<lparr>self_model = None\<rparr> mdl kwargs"

section \<open>preprocessing/inspect.py: the data\<close>

text \<open>
  A manifest is a JSON array of objects. \<open>json\<close> are the values of such an object, a
  record is the object as the Python dictionary \<open>json.load\<close> builds: an association list
  in the order of the file. A decoded image is its array of pixel rows.
\<close>

datatype json = JStr string | JNum int | JArr "json list"

type_synonym path_record = "(string \<times> json) list"

type_synonym pixels = "nat list list"

type_synonym image_info = "(string \<times> pixels) list"

text \<open>
  What the program reads from outside. Each kind of path is looked up in the table of its
  kind: a manifest in \<open>json_files\<close> (its content already parsed), a directory in
  \<open>directories\<close> (its listing, in the order \<open>os.listdir\<close> returns it), an image in
  \<open>pictures\<close> (already decoded); a path that is not in the table is absent.
  \<open>platform\<close> is \<open>sys.platform\<close>, \<open>project_root\<close> is
  \<open>os.path.dirname(os.path.dirname(__file__))\<close>, and \<open>permutation\<close> is the random
  permutation of the population's indices that NumPy's generator draws for a choice
  without replacement.
\<close>

record world =
  json_files :: "string \<rightharpoonup> path_record list"
  directories :: "string \<rightharpoonup> string list"
  pictures :: "string \<rightharpoonup> pixels"
  platform :: string
  project_root :: string
  permutation :: "nat list"

text \<open>
  The module's global variables. \<open>None\<close> is a variable that is not bound yet, or bound to
  Python's \<open>None\<close>.
\<close>

record globals =
  train_data_paths :: "path_record list option"
  val_data_paths :: "path_record list option"
  test_data_paths :: "path_record list option"
  complete_paths :: "path_record list option"
  image_files :: "string list option"
  label_dict :: "(int \<times> string) list option"

text \<open>\<open>list(map(f, xs))\<close> where \<open>f\<close> may raise: the first exception ends the evaluation.\<close>

fun map_raising :: "('a \<Rightarrow> error + 'b) \<Rightarrow> 'a list \<Rightarrow> error + 'b list" where
  "map_raising f [] = Inr []"
| "map_raising f (x # xs) =
     (case f x of
        Inl e \<Rightarrow> Inl e
      | Inr y \<Rightarrow> (case map_raising f xs of Inl e \<Rightarrow> Inl e | Inr ys \<Rightarrow> Inr (y # ys)))"

section \<open>preprocessing/inspect.py: the dataset directory\<close>

fun classes_loop ::
  "string \<Rightarrow> string list \<Rightarrow> (int \<times> string) list \<Rightarrow> int \<Rightarrow> (int \<times> string) list" where
  "classes_loop plat [] class_dict count = class_dict"
| "classes_loop plat (item # items) class_dict count =
     (if item = ''.DS_Store'' \<and> plat = ''darwin'' then classes_loop plat items class_dict count
      else classes_loop plat items (AList.update count item class_dict) (count + 1))"

definition get_classes_dict :: "world \<Rightarrow> string \<Rightarrow> error + (int \<times> string) list" where
  "get_classes_dict w dataset_dir =
     (let label_path = path_join (path_join dataset_dir ''train'') ''labels'' in
      case directories w label_path of
        None \<Rightarrow> Inl (FileNotFoundError label_path)
      | Some items \<Rightarrow> Inr (classes_loop (platform w) items [(0, ''background'')] 1))"

fun image_names_loop :: "world \<Rightarrow> string \<Rightarrow> string list \<Rightarrow> string list \<Rightarrow> error + string list" where
  "image_names_loop w dataset_dir [] image_ids = Inr image_ids"
| "image_names_loop w dataset_dir (m # modes) image_ids =
     (let rgb_image_dir =
        path_join (path_join (path_join dataset_dir m) ''images'') ''rgb'' in
      case directories w rgb_image_dir of
        None \<Rightarrow> Inl AssertionError
      | Some names \<Rightarrow>
          image_names_loop w dataset_dir modes
            (image_ids @ map (\<lambda>name. take (length name - 4) name) names))"

definition get_image_names :: "world \<Rightarrow> string \<Rightarrow> string \<Rightarrow> error + string list" where
  "get_image_names w md dataset_dir =
     (if md \<notin> set [''train'', ''val'', ''test'', ''full''] then
        Inl (ValueError
          ''Invalid mode for file and path acquisition: should be train, val, or test.'')
      else image_names_loop w dataset_dir
             (if md = ''full'' then [''train'', ''val'', ''test''] else [md]) [])"

section \<open>preprocessing/inspect.py: the manifests\<close>

text \<open>
  \<open>load_json_files\<close> assigns global variables one after the other, so it returns the
  globals as they stand when it ends, with the exception if one was raised.
  \<open>append_all\<close> is one of the three loops that append the items of a manifest to
  \<open>complete_paths\<close>.
\<close>

definition append_all :: "'a list \<Rightarrow> 'a list \<Rightarrow> 'a list" where
  "append_all items acc = fold (\<lambda>item acc. acc @ [item]) items acc"

definition load_json_files :: "world \<Rightarrow> string \<Rightarrow> globals \<Rightarrow> globals \<times> error option" where
  "load_json_files w processed_paths g =
     (case json_files w (path_join processed_paths ''train.json'') of
        None \<Rightarrow> (g, Some AssertionError)
      | Some tr \<Rightarrow>
          (let g1 = g\<lparr>train_data_paths := Some tr\<rparr> in
           case json_files w (path_join processed_paths ''val.json'') of
             None \<Rightarrow> (g1, Some AssertionError)
           | Some va \<Rightarrow>
               (let g2 = g1\<lparr>val_data_paths := Some va\<rparr> in
                case json_files w (path_join processed_paths ''test.json'') of
                  None \<Rightarrow> (g2, Some AssertionError)
                | Some te \<Rightarrow>
                    (g2\<lparr>test_data_paths := Some te,
                        complete_paths :=
                          Some (append_all te (append_all va (append_all tr [])))\<rparr>,
                     None))))"

definition not_found :: "string \<Rightarrow> string" where
  "not_found image_id = ''The item '' @ image_id @ '' was not found in the dataset.''"

text \<open>
  The \<open>for ... else\<close> scan. \<open>item['id']\<close> raises \<open>KeyError('id')\<close> on a record without
  that key; the \<open>else\<close> branch is reached when the list is exhausted.
\<close>

fun get_processed_paths :: "string \<Rightarrow> path_record list \<Rightarrow> error + path_record" where
  "get_processed_paths image_id [] = Inl (KeyError (not_found image_id))"
| "get_processed_paths image_id (item # rest) =
     (case map_of item ''id'' of
        None \<Rightarrow> Inl (KeyError ''id'')
      | Some v \<Rightarrow> if v = JStr image_id then Inr item else get_processed_paths image_id rest)"

section \<open>preprocessing/inspect.py: decoding images\<close>

text \<open>
  \<open>np.array(Image.open(value))\<close>: the file at the path, decoded; a path with no image
  raises \<open>FileNotFoundError\<close>, a value that is not a string has no file behind it.
\<close>

definition image_open :: "world \<Rightarrow> json \<Rightarrow> error + pixels" where
  "image_open w v =
     (case v of
        JStr path \<Rightarrow>
          (case pictures w path of None \<Rightarrow> Inl (FileNotFoundError path) | Some a \<Rightarrow> Inr a)
      | _ \<Rightarrow> Inl AttributeError)"

definition single_image_info ::
  "world \<Rightarrow> string \<Rightarrow> string \<Rightarrow> path_record list \<Rightarrow> error + pixels" where
  "single_image_info w image_id category paths_list =
     (case get_processed_paths image_id paths_list of
        Inl e \<Rightarrow> Inl e
      | Inr file_paths \<Rightarrow>
          (case map_of file_paths category of
             None \<Rightarrow> Inl (KeyError category)
           | Some v \<Rightarrow> image_open w v))"

fun image_info_loop :: "world \<Rightarrow> (string \<times> json) list \<Rightarrow> image_info \<Rightarrow> error + image_info" where
  "image_info_loop w [] info = Inr info"
| "image_info_loop w ((key, v) # items) info =
     (if key = ''id'' then image_info_loop w items info
      else if key = ''classes'' then image_info_loop w items info
      else (case image_open w v of
              Inl e \<Rightarrow> Inl e
            | Inr a \<Rightarrow> image_info_loop w items (AList.update key a info)))"

definition all_image_info :: "world \<Rightarrow> string \<Rightarrow> path_record list \<Rightarrow> error + image_info" where
  "all_image_info w image_id paths_list =
     (case get_processed_paths image_id paths_list of
        Inl e \<Rightarrow> Inl e
      | Inr file_paths \<Rightarrow> image_info_loop w file_paths [])"

section \<open>preprocessing/inspect.py: sampling and presenting\<close>

text \<open>
  \<open>np.random.choice(a, size, replace = False)\<close> is NumPy's. It refuses an empty
  population unless no sample is asked for, a size that does not fit the 64-bit index
  type, a sample larger than the population and a negative size, in that order;
  otherwise it returns the elements of \<open>a\<close> at the first \<open>size\<close> indices of a random
  permutation of the population's indices. That the draw of the world is such a
  permutation is \<open>valid_permutation\<close> below, assumed where a property depends on it.
\<close>

definition random_choice :: "world \<Rightarrow> string list \<Rightarrow> int \<Rightarrow> error + string list" where
  "random_choice w a n =
     (if a = [] \<and> n \<noteq> 0 then
        Inl (ValueError ''a cannot be empty unless no samples are taken'')
      else if n < - (2 ^ 63) \<or> 2 ^ 63 \<le> n then Inl OverflowError
      else if int (length a) < n then
        Inl (ValueError ''Cannot take a larger sample than population'')
      else if n < 0 then Inl (ValueError ''negative dimensions are not allowed'')
      else Inr (map (\<lambda>i. a ! i) (take (nat n) (permutation w))))"

text \<open>
  \<open>plt.subplots(nrows, ncols)\<close> is Matplotlib's. It refuses a number of rows or of
  columns that is not positive. A grid of one row and one column comes back as the single
  axes object, which has no \<open>flat\<close>; every other grid comes back as an array of
  \<open>nrows * ncols\<close> axes, and \<open>axes.flat\<close> runs through them row by row.
\<close>

datatype axes = SingleAxes | AxesArray nat

definition subplots :: "int \<Rightarrow> int \<Rightarrow> error + axes" where
  "subplots nrows ncols =
     (if nrows \<le> 0 then Inl (ValueError ''Number of rows must be a positive integer'')
      else if ncols \<le> 0 then Inl (ValueError ''Number of columns must be a positive integer'')
      else if nrows = 1 \<and> ncols = 1 then Inr SingleAxes
      else Inr (AxesArray (nat nrows * nat ncols)))"

fun flat :: "axes \<Rightarrow> error + nat list" where
  "flat SingleAxes = Inl AttributeError"
| "flat (AxesArray n) = Inr [0..<n]"

text \<open>
  A cell is what one turn of a plotting loop puts on its axes: the title, if it sets one,
  and the image it shows. A figure is the cells that end up on the screen, and the file
  the figure is saved to when \<open>save\<close> is set.
\<close>

record cell =
  title :: "string option"
  shown :: pixels

record figure =
  cells :: "cell list"
  saved_to :: "string option"

definition saved_figure :: "world \<Rightarrow> bool \<Rightarrow> string \<Rightarrow> string option" where
  "saved_figure w sv name =
     (if sv then Some (path_join (path_join (project_root w) ''images'') name) else None)"

text \<open>
  The \<open>size\<close> argument of \<open>show_random_specific_images\<close>: a tuple or a list, of integers
  as the caller passes them, or a value of another type.
\<close>

datatype size_arg = PyTuple "int list" | PyList "int list" | PyOther

fun sequence_items :: "size_arg \<Rightarrow> int list option" where
  "sequence_items (PyTuple xs) = Some xs"
| "sequence_items (PyList xs) = Some xs"
| "sequence_items PyOther = None"

text \<open>
  \<open>show_random_specific_images\<close>: the two assertions, then \<open>gather_specific\<close>, the
  sampling and decoding of lines 103 to 106, whose result is the list \<open>images\<close>, then
  \<open>plot_specific\<close>, the grid and the loop of lines 110 to 112 that shows \<open>images[indx]\<close>
  on the axes of index \<open>indx\<close>.
\<close>

definition gather_specific ::
  "world \<Rightarrow> int list \<Rightarrow> string list \<Rightarrow> string \<Rightarrow> path_record list \<Rightarrow> error + pixels list" where
  "gather_specific w dims image_ids image_types paths_list =
     (let num_images = dims ! 0 * dims ! 1 in
      case random_choice w image_ids num_images of
        Inl e \<Rightarrow> Inl e
      | Inr random_images \<Rightarrow>
          map_raising (\<lambda>img. single_image_info w img image_types paths_list) random_images)"

definition plot_specific_cell :: "pixels list \<Rightarrow> nat \<Rightarrow> error + cell" where
  "plot_specific_cell images indx =
     (if indx < length images then Inr \<lparr>title = None, shown = images ! indx\<rparr>
      else Inl IndexError)"

definition plot_specific :: "int list \<Rightarrow> pixels list \<Rightarrow> error + cell list" where
  "plot_specific dims images =
     (case subplots (dims ! 0) (dims ! 1) of
        Inl e \<Rightarrow> Inl e
      | Inr ax \<Rightarrow>
          (case flat ax of
             Inl e \<Rightarrow> Inl e
           | Inr indices \<Rightarrow> map_raising (plot_specific_cell images) indices))"

definition show_random_specific_images ::
  "world \<Rightarrow> size_arg \<Rightarrow> string list \<Rightarrow> string \<Rightarrow> path_record list \<Rightarrow> bool \<Rightarrow> error + figure" where
  "show_random_specific_images w sz image_ids image_types paths_list sv =
     (case sequence_items sz of
        None \<Rightarrow> Inl AssertionError
      | Some dims \<Rightarrow>
          if length dims \<noteq> 2 then Inl AssertionError
          else
            (case gather_specific w dims image_ids image_types paths_list of
               Inl e \<Rightarrow> Inl e
             | Inr images \<Rightarrow>
                 (case plot_specific dims images of
                    Inl e \<Rightarrow> Inl e
                  | Inr cs \<Rightarrow>
                      Inr \<lparr>cells = cs,
                           saved_to = saved_figure w sv ''inspected-specific.png''\<rparr>)))"

text \<open>
  \<open>show_random_general_images\<close> in its two parts. \<open>gather_general\<close> is the assertion on
  the count, the sampling and the assembling (lines 126 to 131): its result is the list
  \<open>images\<close>.
\<close>

definition gather_general ::
  "world \<Rightarrow> int \<Rightarrow> string list \<Rightarrow> path_record list \<Rightarrow> error + image_info list" where
  "gather_general w num_imgs image_ids paths_list =
     (if \<not> (4 < num_imgs \<and> num_imgs < 10) then Inl AssertionError
      else
        (case random_choice w image_ids num_imgs of
           Inl e \<Rightarrow> Inl e
         | Inr random_images \<Rightarrow>
             map_raising (\<lambda>img. all_image_info w img paths_list) random_images))"

text \<open>
  The plotting loop (lines 135 to 145), on the grid of \<open>num_imgs\<close> rows and as many
  columns as the first image set has categories. \<open>str_contains s sub\<close> is
  \<open>s.find(sub) != -1\<close>.
\<close>

definition str_contains :: "string \<Rightarrow> string \<Rightarrow> bool" where
  "str_contains s sub =
     list_ex (\<lambda>i. take (length sub) (drop i s) = sub) [0..<Suc (length s)]"

definition plot_cell :: "image_info list \<Rightarrow> string list \<Rightarrow> nat \<Rightarrow> nat \<Rightarrow> error + cell" where
  "plot_cell images order k indx =
     (let image_type = order ! (indx mod k);
          image_type_title =
            (if str_contains image_type ''label'' then drop 6 image_type else image_type);
          heading = (if indx div 10 = 0 then Some image_type_title else None)
      in if length images \<le> indx div 10 then Inl IndexError
         else (case map_of (images ! (indx div 10)) image_type of
                 None \<Rightarrow> Inl (KeyError image_type)
               | Some a \<Rightarrow> Inr \<lparr>title = heading, shown = a\<rparr>))"

definition plot_general :: "int \<Rightarrow> image_info list \<Rightarrow> error + cell list" where
  "plot_general num_imgs images =
     (case images of
        [] \<Rightarrow> Inl IndexError
      | first # _ \<Rightarrow>
          (let order = map fst first; k = length first in
           case subplots num_imgs (int k) of
             Inl e \<Rightarrow> Inl e
           | Inr ax \<Rightarrow>
               (case flat ax of
                  Inl e \<Rightarrow> Inl e
                | Inr indices \<Rightarrow> map_raising (plot_cell images order k) indices)))"

definition show_random_general_images ::
  "world \<Rightarrow> int \<Rightarrow> string list \<Rightarrow> path_record list \<Rightarrow> bool \<Rightarrow> error + figure" where
  "show_random_general_images w num_imgs image_ids paths_list sv =
     (case gather_general w num_imgs image_ids paths_list of
        Inl e \<Rightarrow> Inl e
      | Inr images \<Rightarrow>
          (case plot_general num_imgs images of
             Inl e \<Rightarrow> Inl e
           | Inr cs \<Rightarrow>
               Inr \<lparr>cells = cs,
                    saved_to = saved_figure w sv ''inspected-general.png''\<rparr>))"

section \<open>preprocessing/inspect.py: the entry point\<close>

text \<open>
  The parsed command line, what a run displays, and the main block: it starts from
  \<open>initial_globals\<close>, where nothing is loaded yet, and returns the globals as they stand
  when the run ends, and the exception or the display.
  \<open>inspect\<close> is the \<open>if\<close>/\<open>elif\<close>/\<open>else\<close> on the mode that ends the block.
\<close>

record arguments =
  arg_directory :: string
  arg_save :: bool
  arg_mode :: string

datatype display = Specific figure | General figure

definition invalid_mode :: error where
  "invalid_mode =
     ValueError ''You have provided an invalid mode, should be [random] or [general].''"

definition lift_display :: "('a \<Rightarrow> display) \<Rightarrow> error + 'a \<Rightarrow> error + display" where
  "lift_display c r = (case r of Inl e \<Rightarrow> Inl e | Inr x \<Rightarrow> Inr (c x))"

definition inspect ::
  "world \<Rightarrow> arguments \<Rightarrow> string list \<Rightarrow> path_record list option \<Rightarrow> error + display" where
  "inspect w args names paths =
     (if arg_mode args = ''specific'' then
        (case paths of
           None \<Rightarrow> Inl TypeError
         | Some paths_list \<Rightarrow>
             lift_display Specific
               (show_random_specific_images w (PyTuple [16, 10]) names ''boundary'' paths_list
                  (arg_save args)))
      else if arg_mode args = ''general'' then
        (case paths of
           None \<Rightarrow> Inl TypeError
         | Some paths_list \<Rightarrow>
             lift_display General
               (show_random_general_images w 6 names paths_list (arg_save args)))
      else Inl invalid_mode)"

definition initial_globals :: globals where
  "initial_globals =
     \<lparr>train_data_paths = None, val_data_paths = None, test_data_paths = None,
      complete_paths = None, image_files = None, label_dict = None\<rparr>"

definition main :: "world \<Rightarrow> arguments \<Rightarrow> globals \<times> (error + display)" where
  "main w args =
     (let (g1, raised) =
            load_json_files w (path_join (path_join (project_root w) ''data'') ''Dataset'')
              initial_globals
      in case raised of
           Some e \<Rightarrow> (g1, Inl e)
         | None \<Rightarrow>
             (case get_image_names w ''train'' (arg_directory args) of
                Inl e \<Rightarrow> (g1, Inl e)
              | Inr names \<Rightarrow>
                  (let g2 = g1\<lparr>image_files := Some names\<rparr> in
                   case get_classes_dict w (arg_directory args) of
                     Inl e \<Rightarrow> (g2, Inl e)
                   | Inr classes \<Rightarrow>
                       (let g3 = g2\<lparr>label_dict := Some classes\<rparr> in
                        (g3, inspect w args names (complete_paths g3))))))"

section \<open>Notions used to state the properties\<close>

text \<open>
  \<open>valid_permutation w n\<close>: the generator's draw is a permutation of the indices below
  \<open>n\<close>. \<open>drawn w n\<close> are the first \<open>n\<close> indices of the draw, the positions that a choice of
  \<open>n\<close> elements takes from its population.
\<close>

definition valid_permutation :: "world \<Rightarrow> nat \<Rightarrow> bool" where
  "valid_permutation w n =
     (length (permutation w) = n \<and> distinct (permutation w) \<and> (\<forall>i \<in> set (permutation w). i < n))"

definition drawn :: "world \<Rightarrow> int \<Rightarrow> nat list" where
  "drawn w n = take (nat n) (permutation w)"

text \<open>
  A record has an \<open>id\<close> key; a record's \<open>id\<close> is a given identifier.
\<close>

definition has_id :: "path_record \<Rightarrow> bool" where
  "has_id r = (map_of r ''id'' \<noteq> None)"

definition id_is :: "string \<Rightarrow> path_record \<Rightarrow> bool" where
  "id_is image_id r = (map_of r ''id'' = Some (JStr image_id))"

text \<open>
  \<open>decodable w r\<close>: every value of the record, other than those of \<open>id\<close> and \<open>classes\<close>,
  is the path of an image that decodes. \<open>category_keys r\<close> are the record's other keys, in
  its order, and \<open>decoded w r k\<close> is the image behind the key \<open>k\<close>.
\<close>

definition decodable :: "world \<Rightarrow> path_record \<Rightarrow> bool" where
  "decodable w r =
     (\<forall>(k, v) \<in> set r. k \<noteq> ''id'' \<and> k \<noteq> ''classes''
        \<longrightarrow> (\<exists>p a. v = JStr p \<and> pictures w p = Some a))"

definition category_keys :: "path_record \<Rightarrow> string list" where
  "category_keys r = filter (\<lambda>k. k \<noteq> ''id'' \<and> k \<noteq> ''classes'') (map fst r)"

definition decoded :: "world \<Rightarrow> path_record \<Rightarrow> string \<Rightarrow> pixels option" where
  "decoded w r k = (case map_of r k of Some (JStr p) \<Rightarrow> pictures w p | _ \<Rightarrow> None)"

text \<open>The paths that the entry point reads.\<close>

definition manifest_path :: "world \<Rightarrow> string \<Rightarrow> string" where
  "manifest_path w name = path_join (path_join (path_join (project_root w) ''data'') ''Dataset'') name"

definition rgb_dir :: "string \<Rightarrow> string" where
  "rgb_dir dataset_dir = path_join (path_join (path_join dataset_dir ''train'') ''images'') ''rgb''"

definition labels_dir :: "string \<Rightarrow> string" where
  "labels_dir dataset_dir = path_join (path_join dataset_dir ''train'') ''labels''"

section \<open>An example dataset\<close>

text \<open>
  Six training images \<open>a\<close> to \<open>f\<close> with two categories each, one validation and one test
  record, every image a single pixel whose value tells the image and the category apart.
  The generator draws the permutation 5, 3, 1, 0, 2, 4, so a choice of six identifiers is
  \<open>f, d, b, a, c, e\<close>.
\<close>

definition example_record :: "string \<Rightarrow> int \<Rightarrow> path_record" where
  "example_record i n =
     [(''id'', JStr i), (''rgb'', JStr (i @ ''/rgb.jpg'')),
      (''label_water'', JStr (i @ ''/water.png'')), (''classes'', JArr [JNum n])]"

definition example_train :: "path_record list" where
  "example_train = [example_record ''a'' 1, example_record ''b'' 2, example_record ''c'' 3,
                    example_record ''d'' 4, example_record ''e'' 5, example_record ''f'' 6]"

definition example_world :: world where
  "example_world =
     \<lparr>json_files = map_of
        [(''/repo/data/Dataset/train.json'', example_train),
         (''/repo/data/Dataset/val.json'', [example_record ''g'' 7]),
         (''/repo/data/Dataset/test.json'', [example_record ''h'' 8])],
      directories = map_of
        [(''/data/train/images/rgb'', [''a.jpg'', ''b.jpg'', ''c.jpg'', ''d.jpg'', ''e.jpg'', ''f.jpg'']),
         (''/data/train/labels'', [''water'', ''weed_cluster''])],
      pictures = map_of
        [(''a/rgb.jpg'', [[10]]), (''a/water.png'', [[11]]),
         (''b/rgb.jpg'', [[20]]), (''b/water.png'', [[21]]),
         (''c/rgb.jpg'', [[30]]), (''c/water.png'', [[31]]),
         (''d/rgb.jpg'', [[40]]), (''d/water.png'', [[41]]),
         (''e/rgb.jpg'', [[50]]), (''e/water.png'', [[51]]),
         (''f/rgb.jpg'', [[60]]), (''f/water.png'', [[61]])],
      platform = ''linux'',
      project_root = ''/repo'',
      permutation = [5, 3, 1, 0, 2, 4]\<rparr>"

definition example_ids :: "string list" where
  "example_ids = [''a'', ''b'', ''c'', ''d'', ''e'', ''f'']"

text \<open>
  A command line with a given mode, the image set that the \<open>i\<close>-th identifier assembles
  to and its \<open>rgb\<close> image, and a model store in which every path holds a saved model.
\<close>

definition example_args :: "string \<Rightarrow> arguments" where
  "example_args md = \<lparr>arg_directory = ''/data'', arg_save = True, arg_mode = md\<rparr>"

definition example_assembled :: "nat \<Rightarrow> image_info" where
  "example_assembled i =
     [(''rgb'', [[10 * (i + 1)]]), (''label_water'', [[10 * (i + 1) + 1]])]"

definition example_rgb :: "nat \<Rightarrow> pixels" where
  "example_rgb i = [[10 * (i + 1)]]"

definition example_store :: model_store where
  "example_store = \<lparr>saved_models = (\<lambda>p. True), source_dir = ''/repo''\<rparr>"

section \<open>Lemmas about the helpers\<close>

lemma map_raising_all:
  "(\<And>x. x \<in> set xs \<Longrightarrow> f x = Inr (g x)) \<Longrightarrow> map_raising f xs = Inr (map g xs)"
  by (induction xs) simp_all

lemma map_raising_length:
  "map_raising f xs = Inr ys \<Longrightarrow> length ys = length xs"
  by (induction xs arbitrary: ys) (auto split: sum.splits)

lemma map_raising_nth:
  "map_raising f xs = Inr ys \<Longrightarrow> j < length xs \<Longrightarrow> f (xs ! j) = Inr (ys ! j)"
proof (induction xs arbitrary: ys j)
  case Nil
  then show ?case by simp
next
  case (Cons x xs)
  then show ?case by (cases j) (auto split: sum.splits)
qed

lemma map_raising_Inl:
  "map_raising f xs = Inl e \<Longrightarrow> \<exists>x \<in> set xs. f x = Inl e"
  by (induction xs) (auto split: sum.splits)

lemma map_raising_map:
  "map_raising f (map h xs) = map_raising (\<lambda>x. f (h x)) xs"
  by (induction xs) (simp_all split: sum.splits)

lemma append_all_eq: "append_all items acc = acc @ items"
  unfolding append_all_def by (induction items arbitrary: acc) simp_all

lemma valid_permutation_drawn:
  assumes "valid_permutation w n" and "nat k \<le> n"
  shows "length (drawn w k) = nat k" and "distinct (drawn w k)"
    and "\<forall>i \<in> set (drawn w k). i < n"
  using assms by (auto simp: valid_permutation_def drawn_def dest: in_set_takeD)

lemma random_choice_ok:
  "0 \<le> n \<Longrightarrow> n < 2 ^ 63 \<Longrightarrow> nat n \<le> length a \<Longrightarrow>
   random_choice w a n = Inr (map (\<lambda>i. a ! i) (drawn w n))"
  by (auto simp: random_choice_def drawn_def)

lemmas example_defs =
  example_world_def example_train_def example_record_def example_ids_def example_args_def

lemmas run_defs =
  gather_general_def random_choice_def all_image_info_def single_image_info_def image_open_def
  show_random_general_images_def show_random_specific_images_def plot_general_def plot_cell_def
  gather_specific_def plot_specific_def plot_specific_cell_def subplots_def saved_figure_def
  str_contains_def path_join_def endswith_def

lemma example_manifests:
  "json_files example_world (path_join ''/repo/data/Dataset'' ''train.json'') = Some example_train"
  "json_files example_world (path_join ''/repo/data/Dataset'' ''val.json'')
     = Some [example_record ''g'' 7]"
  "json_files example_world (path_join ''/repo/data/Dataset'' ''test.json'')
     = Some [example_record ''h'' 8]"
  "json_files example_world (path_join ''/elsewhere'' ''train.json'') = None"
  by (simp_all add: path_join_def endswith_def example_world_def)

lemma example_all_image_info:
  "all_image_info example_world ''a'' example_train = Inr (example_assembled 0)"
  "all_image_info example_world ''b'' example_train = Inr (example_assembled 1)"
  "all_image_info example_world ''c'' example_train = Inr (example_assembled 2)"
  "all_image_info example_world ''d'' example_train = Inr (example_assembled 3)"
  "all_image_info example_world ''e'' example_train = Inr (example_assembled 4)"
  "all_image_info example_world ''f'' example_train = Inr (example_assembled 5)"
  by (simp_all add: all_image_info_def image_open_def example_defs example_assembled_def)

lemma example_drawn: "drawn example_world 6 = [5, 3, 1, 0, 2, 4]"
  by (simp add: drawn_def example_defs)

section \<open>The manifest store\<close>

text \<open>
  Claim C8. \<open>load_json_files\<close> fails, by the assertion on the file's existence, when
  \<open>train.json\<close>, \<open>val.json\<close> or \<open>test.json\<close> is absent from the directory, and then leaves
  \<open>complete_paths\<close> as it was. When the three files are there, it succeeds, and the merged
  table is the train records, then the val records, then the test records, each in the
  order of its file.
\<close>

theorem load_json_files_merges:
  "(json_files w (path_join d ''train.json'') = None
      \<or> json_files w (path_join d ''val.json'') = None
      \<or> json_files w (path_join d ''test.json'') = None
    \<longrightarrow> snd (load_json_files w d g) = Some AssertionError
        \<and> complete_paths (fst (load_json_files w d g)) = complete_paths g)
   \<and> (json_files w (path_join d ''train.json'') = Some tr
      \<and> json_files w (path_join d ''val.json'') = Some va
      \<and> json_files w (path_join d ''test.json'') = Some te
    \<longrightarrow> load_json_files w d g =
          (g\<lparr>train_data_paths := Some tr, val_data_paths := Some va,
             test_data_paths := Some te, complete_paths := Some (tr @ va @ te)\<rparr>, None))"
  by (auto simp: load_json_files_def append_all_eq Let_def split: option.splits)

text \<open>
  The example's three manifests are merged in that order; a directory without them makes
  the load fail.
\<close>

theorem load_json_files_merges_witness:
  "load_json_files example_world ''/repo/data/Dataset'' initial_globals =
     (initial_globals\<lparr>train_data_paths := Some example_train,
        val_data_paths := Some [example_record ''g'' 7],
        test_data_paths := Some [example_record ''h'' 8],
        complete_paths :=
          Some (example_train @ [example_record ''g'' 7] @ [example_record ''h'' 8])\<rparr>, None)
   \<and> snd (load_json_files example_world ''/elsewhere'' initial_globals) = Some AssertionError"
proof -
  from load_json_files_merges [of example_world "''/repo/data/Dataset''" initial_globals example_train
      "[example_record ''g'' 7]" "[example_record ''h'' 8]"] example_manifests(1-3)
  have "load_json_files example_world ''/repo/data/Dataset'' initial_globals =
     (initial_globals\<lparr>train_data_paths := Some example_train,
        val_data_paths := Some [example_record ''g'' 7],
        test_data_paths := Some [example_record ''h'' 8],
        complete_paths :=
          Some (example_train @ [example_record ''g'' 7] @ [example_record ''h'' 8])\<rparr>, None)"
    by simp
  moreover from load_json_files_merges [of example_world "''/elsewhere''" initial_globals] example_manifests(4)
  have "snd (load_json_files example_world ''/elsewhere'' initial_globals) = Some AssertionError"
    by simp
  ultimately show ?thesis by simp
qed

section \<open>The path resolver\<close>

lemma get_processed_paths_find:
  "\<forall>r \<in> set paths_list. has_id r \<Longrightarrow>
   get_processed_paths image_id paths_list =
     (case find (id_is image_id) paths_list of
        Some r \<Rightarrow> Inr r
      | None \<Rightarrow> Inl (KeyError (not_found image_id)))"
  by (induction paths_list) (auto simp: has_id_def id_is_def)

lemma get_processed_paths_first:
  "\<forall>r \<in> set pre. has_id r \<and> \<not> id_is image_id r \<Longrightarrow> id_is image_id r \<Longrightarrow>
   get_processed_paths image_id (pre @ r # post) = Inr r"
  by (induction pre) (auto simp: has_id_def id_is_def)

lemma get_processed_paths_append:
  "get_processed_paths image_id xs = Inr r \<Longrightarrow> get_processed_paths image_id (xs @ ys) = Inr r"
  by (induction xs) (auto split: option.splits if_splits)

lemma get_processed_paths_Inr:
  "get_processed_paths image_id paths_list = Inr r \<Longrightarrow> r \<in> set paths_list \<and> id_is image_id r"
  by (induction paths_list) (auto simp: id_is_def split: option.splits if_splits)

lemma not_found_neq_id: "not_found image_id \<noteq> ''id''"
  by (simp add: not_found_def)

lemma get_processed_paths_not_found:
  "\<forall>r \<in> set paths_list. has_id r \<Longrightarrow>
   (get_processed_paths image_id paths_list = Inl (KeyError (not_found image_id)))
     = (\<forall>r \<in> set paths_list. \<not> id_is image_id r)"
  by (induction paths_list) (auto simp: has_id_def id_is_def split: if_splits)

lemma get_processed_paths_no_assertion:
  "get_processed_paths image_id paths_list \<noteq> Inl AssertionError"
  by (induction paths_list) (auto split: option.splits)

lemma single_image_info_no_assertion:
  "single_image_info w image_id category paths_list \<noteq> Inl AssertionError"
  using get_processed_paths_no_assertion [of image_id paths_list]
  by (auto simp: single_image_info_def image_open_def split: sum.splits option.splits json.splits)

text \<open>
  Claim C4. On a sequence of records that all have an \<open>id\<close>, \<open>get_processed_paths\<close>
  returns the first record, in the order of the sequence, whose \<open>id\<close> is the identifier:
  the record after any prefix without a match. It raises the \<open>KeyError\<close> whose message
  is \<open>The item\<close>, the identifier, \<open>was not found in the dataset.\<close> exactly when no record
  matches. A match found in a
  table stays the result when more records are appended to the table, so in the merged
  table the earlier split wins.
\<close>

theorem get_processed_paths_first_match:
  assumes "\<forall>r \<in> set paths_list. has_id r"
  shows "get_processed_paths image_id paths_list =
           (case find (id_is image_id) paths_list of
              Some r \<Rightarrow> Inr r
            | None \<Rightarrow> Inl (KeyError
                   (''The item '' @ image_id @ '' was not found in the dataset.'')))
       \<and> (\<forall>pre r post. paths_list = pre @ r # post \<and> id_is image_id r
             \<and> (\<forall>p \<in> set pre. \<not> id_is image_id p)
            \<longrightarrow> get_processed_paths image_id paths_list = Inr r)
       \<and> ((get_processed_paths image_id paths_list = Inl (KeyError
                   (''The item '' @ image_id @ '' was not found in the dataset.'')))
            = (\<forall>r \<in> set paths_list. \<not> id_is image_id r))
       \<and> (\<forall>r. get_processed_paths image_id paths_list = Inr r
            \<longrightarrow> get_processed_paths image_id (paths_list @ later) = Inr r)"
proof (intro conjI allI impI)
  show "get_processed_paths image_id paths_list =
           (case find (id_is image_id) paths_list of
              Some r \<Rightarrow> Inr r
            | None \<Rightarrow> Inl (KeyError
                   (''The item '' @ image_id @ '' was not found in the dataset.'')))"
    using get_processed_paths_find [OF assms, of image_id] unfolding not_found_def .
next
  fix pre r post
  assume h: "paths_list = pre @ r # post \<and> id_is image_id r
             \<and> (\<forall>p \<in> set pre. \<not> id_is image_id p)"
  with assms have "\<forall>p \<in> set pre. has_id p \<and> \<not> id_is image_id p" by simp
  with h show "get_processed_paths image_id paths_list = Inr r"
    by (simp add: get_processed_paths_first)
next
  show "(get_processed_paths image_id paths_list = Inl (KeyError
                   (''The item '' @ image_id @ '' was not found in the dataset.'')))
            = (\<forall>r \<in> set paths_list. \<not> id_is image_id r)"
    using get_processed_paths_not_found [OF assms, of image_id] unfolding not_found_def .
next
  fix r
  assume "get_processed_paths image_id paths_list = Inr r"
  then show "get_processed_paths image_id (paths_list @ later) = Inr r"
    by (rule get_processed_paths_append)
qed

text \<open>
  In the example, \<open>c\<close> resolves to its train record also when a second record with that
  identifier follows the table, and \<open>z\<close> is not found.
\<close>

theorem get_processed_paths_first_match_witness:
  "list_all has_id example_train
   \<and> get_processed_paths ''c'' (example_train @ [example_record ''c'' 9])
       = Inr (example_record ''c'' 3)
   \<and> get_processed_paths ''z'' example_train
       = Inl (KeyError ''The item z was not found in the dataset.'')"
proof -
  have h: "\<forall>r \<in> set example_train. has_id r"
    by (simp add: has_id_def example_defs)
  have c: "find (id_is ''c'') example_train = Some (example_record ''c'' 3)"
    by (simp add: id_is_def example_defs)
  have z: "\<forall>r \<in> set example_train. \<not> id_is ''z'' r"
    by (simp add: id_is_def example_defs)
  note t = get_processed_paths_first_match [OF h]
  from t [of "''c''"] c have "get_processed_paths ''c'' example_train = Inr (example_record ''c'' 3)"
    by simp
  with t [of "''c''" "[example_record ''c'' 9]"]
  have "get_processed_paths ''c'' (example_train @ [example_record ''c'' 9])
          = Inr (example_record ''c'' 3)"
    by blast
  moreover from t [of "''z''" "[]"] z
  have "get_processed_paths ''z'' example_train
          = Inl (KeyError (''The item '' @ ''z'' @ '' was not found in the dataset.''))"
    by blast
  then have "get_processed_paths ''z'' example_train
          = Inl (KeyError ''The item z was not found in the dataset.'')"
    by simp
  ultimately show ?thesis using h by (simp add: list_all_iff)
qed

section \<open>The image assembler\<close>

lemma decodable_Cons:
  "decodable w ((k, v) # items) =
     ((k \<noteq> ''id'' \<and> k \<noteq> ''classes'' \<longrightarrow> (\<exists>p a. v = JStr p \<and> pictures w p = Some a))
      \<and> decodable w items)"
  by (simp add: decodable_def)

lemma image_info_loop_ok:
  assumes "decodable w items" and "distinct (map fst items)"
    and "set (map fst items) \<inter> set (map fst info) = {}"
  shows "\<exists>info'. image_info_loop w items info = Inr info'
           \<and> map fst info' = map fst info @ category_keys items
           \<and> (\<forall>k. map_of info' k =
                 (if k \<in> set (category_keys items) then decoded w items k else map_of info k))"
  using assms
proof (induction items arbitrary: info)
  case Nil
  then show ?case by (simp add: category_keys_def)
next
  case (Cons kv items)
  obtain k v where kv: "kv = (k, v)" by (cases kv)
  from Cons.prems kv have dec: "decodable w items" and dist: "distinct (map fst items)"
    and knew: "k \<notin> set (map fst items)" and kinfo: "k \<notin> set (map fst info)"
    and disj: "set (map fst items) \<inter> set (map fst info) = {}"
    by (auto simp: decodable_Cons)
  have notin: "k \<notin> set (category_keys items)"
    using knew by (simp add: category_keys_def)
  have keep: "decoded w ((k, v) # items) k' = decoded w items k'" if "k' \<in> set (category_keys items)" for k'
    using that knew by (auto simp: decoded_def category_keys_def)
  show ?case
  proof (cases "k = ''id'' \<or> k = ''classes''")
    case True
    from Cons.IH [OF dec dist disj] obtain info' where
      r: "image_info_loop w items info = Inr info'"
         "map fst info' = map fst info @ category_keys items"
         "\<forall>k. map_of info' k =
                 (if k \<in> set (category_keys items) then decoded w items k else map_of info k)"
      by blast
    have ck: "category_keys ((k, v) # items) = category_keys items"
      using True by (auto simp: category_keys_def)
    from True r ck keep show ?thesis
      unfolding kv by auto
  next
    case False
    with Cons.prems kv obtain p a where pa: "v = JStr p" "pictures w p = Some a"
      by (auto simp: decodable_Cons)
    let ?info = "AList.update k a info"
    have keys: "map fst ?info = map fst info @ [k]"
      using kinfo by (simp add: update_keys)
    have disj': "set (map fst items) \<inter> set (map fst ?info) = {}"
      using disj knew keys by auto
    from Cons.IH [OF dec dist disj'] obtain info' where
      r: "image_info_loop w items ?info = Inr info'"
         "map fst info' = map fst ?info @ category_keys items"
         "\<forall>k'. map_of info' k' =
                 (if k' \<in> set (category_keys items) then decoded w items k' else map_of ?info k')"
      by blast
    have ck: "category_keys ((k, v) # items) = k # category_keys items"
      using False by (auto simp: category_keys_def)
    have run: "image_info_loop w ((k, v) # items) info = Inr info'"
      using False pa r(1) by (simp add: image_open_def)
    have dk: "decoded w ((k, v) # items) k = Some a"
      using pa by (simp add: decoded_def)
    have vals: "map_of info' k' =
                 (if k' \<in> set (category_keys ((k, v) # items)) then decoded w ((k, v) # items) k'
                  else map_of info k')" for k'
      using r(3) notin keep dk by (auto simp: ck update_conv')
    from run r(2) keys ck vals show ?thesis
      unfolding kv by auto
  qed
qed

text \<open>
  Claim C7. When the identifier resolves to a record whose category files all decode,
  \<open>all_image_info\<close> returns a mapping whose keys are the record's keys without \<open>id\<close> and
  \<open>classes\<close> (in the record's order), and the value at each key is the decoded image of
  the file that the record names for it.
\<close>

theorem all_image_info_keys:
  assumes "get_processed_paths image_id paths_list = Inr r"
    and "distinct (map fst r)"
    and "decodable w r"
  shows "\<exists>info. all_image_info w image_id paths_list = Inr info
           \<and> set (map fst info) = set (map fst r) - {''id'', ''classes''}
           \<and> map fst info = category_keys r
           \<and> (\<forall>k \<in> set (map fst info).
                 \<exists>p a. map_of r k = Some (JStr p) \<and> pictures w p = Some a \<and> map_of info k = Some a)"
proof -
  from image_info_loop_ok [OF assms(3) assms(2), of "[]"] obtain info where
    r: "image_info_loop w r [] = Inr info" "map fst info = category_keys r"
       "\<forall>k. map_of info k = (if k \<in> set (category_keys r) then decoded w r k else None)"
    by auto
  have run: "all_image_info w image_id paths_list = Inr info"
    using assms(1) r(1) by (simp add: all_image_info_def)
  have keys: "set (map fst info) = set (map fst r) - {''id'', ''classes''}"
    unfolding r(2) category_keys_def by auto
  have vals: "\<exists>p a. map_of r k = Some (JStr p) \<and> pictures w p = Some a \<and> map_of info k = Some a"
    if "k \<in> set (map fst info)" for k
  proof -
    from that r(2) have ck: "k \<in> set (category_keys r)" by simp
    then have "k \<in> fst ` set r" and ne: "k \<noteq> ''id''" "k \<noteq> ''classes''"
      by (auto simp: category_keys_def)
    then obtain v where v: "map_of r k = Some v"
      by (metis domD dom_map_of_conv_image_fst)
    then have "(k, v) \<in> set r" by (rule map_of_SomeD)
    with assms(3) ne obtain p a where "v = JStr p" "pictures w p = Some a"
      by (auto simp: decodable_def)
    with v r(3) ck show ?thesis by (simp add: decoded_def)
  qed
  from run keys r(2) vals show ?thesis by blast
qed

text \<open>The record of \<open>c\<close> in the example gives the two categories of \<open>c\<close>.\<close>

theorem all_image_info_keys_witness:
  "get_processed_paths ''c'' example_train = Inr (example_record ''c'' 3)
   \<and> distinct (map fst (example_record ''c'' 3))
   \<and> decodable example_world (example_record ''c'' 3)
   \<and> (\<exists>info. all_image_info example_world ''c'' example_train = Inr info
         \<and> set (map fst info) = {''rgb'', ''label_water''}
         \<and> map_of info ''rgb'' = Some [[30]])"
proof -
  have r: "get_processed_paths ''c'' example_train = Inr (example_record ''c'' 3)"
    by (simp add: example_defs)
  have d: "distinct (map fst (example_record ''c'' 3))"
    by (simp add: example_defs)
  have o: "decodable example_world (example_record ''c'' 3)"
    by (simp add: decodable_def example_defs)
  have k: "set (map fst (example_record ''c'' 3)) - {''id'', ''classes''}
             = {''rgb'', ''label_water''}"
    by (auto simp: example_defs)
  from all_image_info_keys [OF r d o] obtain info where
    i: "all_image_info example_world ''c'' example_train = Inr info"
       "set (map fst info) = set (map fst (example_record ''c'' 3)) - {''id'', ''classes''}"
    by blast
  from i(1) have "map_of info ''rgb'' = Some [[30]]"
    by (auto simp: example_all_image_info example_assembled_def)
  with r d o i k show ?thesis by simp
qed

section \<open>Sampling a general view\<close>

lemma gather_general_ok:
  assumes "4 < n" "n < 10" "nat n \<le> length ids"
    and "\<forall>i \<in> set (drawn w n). all_image_info w (ids ! i) paths = Inr (assembled i)"
  shows "gather_general w n ids paths = Inr (map assembled (drawn w n))"
proof -
  have "map_raising (\<lambda>i. all_image_info w (ids ! i) paths) (drawn w n)
          = Inr (map assembled (drawn w n))"
    using assms(4) by (intro map_raising_all) simp
  moreover have "map_raising f (map h xs) = map_raising (\<lambda>x. f (h x)) xs" for f :: "string \<Rightarrow> error + image_info" and h :: "nat \<Rightarrow> string" and xs
    by (induction xs) (simp_all split: sum.splits)
  ultimately show ?thesis
    using assms(1-3) by (simp add: gather_general_def random_choice_ok)
qed

text \<open>
  Claim C6, as stated, lets \<open>show_random_general_images\<close> succeed for every count
  between 4 and 10 when the identifiers are enough. With a count of six and six
  identifiers, but a table in which none of them has a record, the first sampled
  identifier \<open>f\<close> is not found and the run ends with that \<open>KeyError\<close>.
\<close>

theorem general_unresolved_ids_fail:
  "(4::int) < 6 \<and> (6::int) < 10 \<and> nat 6 \<le> length example_ids
   \<and> gather_general example_world 6 example_ids [] = Inl (KeyError (not_found ''f''))
   \<and> show_random_general_images example_world 6 example_ids [] True
       = Inl (KeyError (not_found ''f''))"
  by (simp add: run_defs example_defs)

text \<open>
  Claim C6, as amended. \<open>show_random_general_images\<close> fails on its assertion for every
  count that is at most 4 or at least 10. For a count between them that does not exceed
  the number of identifiers, the identifiers at the drawn positions are assembled: when
  each of them assembles, the gathered list holds exactly one image set per drawn position,
  in the order of the draw, and the drawn positions are \<open>count\<close> pairwise distinct
  positions of the identifier list.
\<close>

theorem general_count_guard:
  "(num_imgs \<le> 4 \<or> 10 \<le> num_imgs
      \<longrightarrow> gather_general w num_imgs image_ids paths_list = Inl AssertionError
        \<and> show_random_general_images w num_imgs image_ids paths_list sv = Inl AssertionError)
   \<and> (4 < num_imgs \<and> num_imgs < 10 \<and> nat num_imgs \<le> length image_ids
        \<and> valid_permutation w (length image_ids)
        \<and> (\<forall>i \<in> set (drawn w num_imgs).
              all_image_info w (image_ids ! i) paths_list = Inr (assembled i))
      \<longrightarrow> gather_general w num_imgs image_ids paths_list = Inr (map assembled (drawn w num_imgs))
        \<and> length (map assembled (drawn w num_imgs)) = nat num_imgs
        \<and> distinct (drawn w num_imgs)
        \<and> (\<forall>i \<in> set (drawn w num_imgs). i < length image_ids))"
proof (intro conjI impI)
  assume "num_imgs \<le> 4 \<or> 10 \<le> num_imgs"
  then have "\<not> (4 < num_imgs \<and> num_imgs < 10)" by auto
  then show "gather_general w num_imgs image_ids paths_list = Inl AssertionError"
    and "show_random_general_images w num_imgs image_ids paths_list sv = Inl AssertionError"
    by (simp_all add: gather_general_def show_random_general_images_def)
next
  assume h: "4 < num_imgs \<and> num_imgs < 10 \<and> nat num_imgs \<le> length image_ids
        \<and> valid_permutation w (length image_ids)
        \<and> (\<forall>i \<in> set (drawn w num_imgs).
              all_image_info w (image_ids ! i) paths_list = Inr (assembled i))"
  then show "gather_general w num_imgs image_ids paths_list = Inr (map assembled (drawn w num_imgs))"
    by (simp add: gather_general_ok)
  from h have v: "valid_permutation w (length image_ids)" and n: "nat num_imgs \<le> length image_ids"
    by simp_all
  from valid_permutation_drawn(1) [OF v n]
  show "length (map assembled (drawn w num_imgs)) = nat num_imgs" by simp
  from valid_permutation_drawn(2) [OF v n] show "distinct (drawn w num_imgs)" .
  from valid_permutation_drawn(3) [OF v n]
  show "\<forall>i \<in> set (drawn w num_imgs). i < length image_ids" .
qed

text \<open>
  In the example a count of six gathers the six image sets in the order of the draw;
  counts of three and ten fail.
\<close>

theorem general_count_guard_witness:
  "valid_permutation example_world (length example_ids)
   \<and> list_all (\<lambda>i. all_image_info example_world (example_ids ! i) example_train
                     = Inr (example_assembled i)) (drawn example_world 6)
   \<and> gather_general example_world 6 example_ids example_train
       = Inr (map example_assembled (drawn example_world 6))
   \<and> distinct (drawn example_world 6)
   \<and> show_random_general_images example_world 3 example_ids example_train True
       = Inl AssertionError
   \<and> show_random_general_images example_world 10 example_ids example_train True
       = Inl AssertionError"
proof -
  have v: "valid_permutation example_world (length example_ids)"
    by (simp add: valid_permutation_def example_defs)
  have a: "\<forall>i \<in> set (drawn example_world 6).
             all_image_info example_world (example_ids ! i) example_train
               = Inr (example_assembled i)"
    using example_all_image_info by (simp add: example_drawn example_ids_def)
  have n: "nat 6 \<le> length example_ids" by (simp add: example_ids_def)
  from general_count_guard [of 6 example_world example_ids example_train True example_assembled]
    v a n
  have "gather_general example_world 6 example_ids example_train
          = Inr (map example_assembled (drawn example_world 6))
        \<and> distinct (drawn example_world 6)"
    by simp
  moreover from general_count_guard [of 3 example_world example_ids example_train True]
  have "show_random_general_images example_world 3 example_ids example_train True
          = Inl AssertionError"
    by simp
  moreover from general_count_guard [of 10 example_world example_ids example_train True]
  have "show_random_general_images example_world 10 example_ids example_train True
          = Inl AssertionError"
    by simp
  ultimately show ?thesis using v a by (simp add: list_all_iff)
qed

section \<open>The grid of a general view\<close>

text \<open>
  What a cell of the grid shows: the image set is picked by \<open>indx div 10\<close>, the category
  by \<open>indx mod k\<close>. With ten categories that is row \<open>i\<close> and column \<open>j\<close> of the cell
  \<open>i * 10 + j\<close>.
\<close>

lemma plot_cell_shows:
  "plot_cell images order k indx = Inr c \<Longrightarrow>
   indx div 10 < length images
   \<and> map_of (images ! (indx div 10)) (order ! (indx mod k)) = Some (shown c)"
  by (auto simp: plot_cell_def Let_def split: if_splits option.splits)

lemma plot_cell_ten_columns:
  "j < 10 \<Longrightarrow> plot_cell images order 10 (i * 10 + j) = Inr c \<Longrightarrow>
   map_of (images ! i) (order ! j) = Some (shown c)"
  using plot_cell_shows [of images order 10 "i * 10 + j" c] by simp

text \<open>
  Claim C1 asks that the cell at row \<open>i\<close> and column \<open>j\<close>, of flat index \<open>i * k + j\<close>,
  shows the image of the \<open>i\<close>-th sampled identifier for the \<open>j\<close>-th category, for every
  number \<open>k\<close> of categories. The example has two categories and the sampled identifiers
  \<open>f, d, b, a, c, e\<close>. The run succeeds, and the gathered image sets are as expected, but
  the first ten cells of the grid (five rows) all show the images of \<open>f\<close>, the last two
  show those of \<open>d\<close>, and the images of \<open>b, a, c, e\<close> are not shown at all; the titles stand
  on the first ten cells and not only on the first row.
\<close>

theorem general_grid_rows_wrong:
  "gather_general example_world 6 example_ids example_train =
     Inr [[(''rgb'', [[60]]), (''label_water'', [[61]])],
          [(''rgb'', [[40]]), (''label_water'', [[41]])],
          [(''rgb'', [[20]]), (''label_water'', [[21]])],
          [(''rgb'', [[10]]), (''label_water'', [[11]])],
          [(''rgb'', [[30]]), (''label_water'', [[31]])],
          [(''rgb'', [[50]]), (''label_water'', [[51]])]]
   \<and> show_random_general_images example_world 6 example_ids example_train True =
     Inr \<lparr>cells =
           [\<lparr>title = Some ''rgb'', shown = [[60]]\<rparr>, \<lparr>title = Some ''water'', shown = [[61]]\<rparr>,
            \<lparr>title = Some ''rgb'', shown = [[60]]\<rparr>, \<lparr>title = Some ''water'', shown = [[61]]\<rparr>,
            \<lparr>title = Some ''rgb'', shown = [[60]]\<rparr>, \<lparr>title = Some ''water'', shown = [[61]]\<rparr>,
            \<lparr>title = Some ''rgb'', shown = [[60]]\<rparr>, \<lparr>title = Some ''water'', shown = [[61]]\<rparr>,
            \<lparr>title = Some ''rgb'', shown = [[60]]\<rparr>, \<lparr>title = Some ''water'', shown = [[61]]\<rparr>,
            \<lparr>title = None, shown = [[40]]\<rparr>, \<lparr>title = None, shown = [[41]]\<rparr>],
          saved_to = Some ''/repo/images/inspected-general.png''\<rparr>"
  by code_simp

section \<open>Sampling a specific view\<close>

lemma specific_two:
  "sequence_items sz = Some [r, c] \<Longrightarrow>
   show_random_specific_images w sz image_ids image_types paths_list sv =
     (case gather_specific w [r, c] image_ids image_types paths_list of
        Inl e \<Rightarrow> Inl e
      | Inr images \<Rightarrow>
          (case plot_specific [r, c] images of
             Inl e \<Rightarrow> Inl e
           | Inr cs \<Rightarrow>
               Inr \<lparr>cells = cs, saved_to = saved_figure w sv ''inspected-specific.png''\<rparr>))"
  by (simp add: show_random_specific_images_def)

lemma specific_not_two:
  "\<forall>r c. sequence_items sz \<noteq> Some [r, c] \<Longrightarrow>
   show_random_specific_images w sz image_ids image_types paths_list sv = Inl AssertionError"
proof (cases "sequence_items sz")
  case None
  then show ?thesis by (simp add: show_random_specific_images_def)
next
  case (Some dims)
  assume "\<forall>r c. sequence_items sz \<noteq> Some [r, c]"
  with Some have "\<forall>r c. dims \<noteq> [r, c]" by simp
  then have "length dims \<noteq> 2"
    by (metis length_0_conv length_Suc_conv numeral_2_eq_2)
  with Some show ?thesis by (simp add: show_random_specific_images_def)
qed

lemma gather_specific_choice:
  "gather_specific w [r, c] image_ids image_types paths_list =
     (case random_choice w image_ids (r * c) of
        Inl e \<Rightarrow> Inl e
      | Inr random_images \<Rightarrow>
          map_raising (\<lambda>img. single_image_info w img image_types paths_list) random_images)"
  by (simp add: gather_specific_def)

lemma random_choice_no_assertion: "random_choice w a n \<noteq> Inl AssertionError"
  by (simp add: random_choice_def)

lemma gather_specific_no_assertion:
  "gather_specific w [r, c] image_ids image_types paths_list \<noteq> Inl AssertionError"
proof (cases "random_choice w image_ids (r * c)")
  case (Inl e)
  with random_choice_no_assertion [of w image_ids "r * c"] show ?thesis
    by (simp add: gather_specific_choice)
next
  case (Inr random_images)
  show ?thesis
  proof
    assume "gather_specific w [r, c] image_ids image_types paths_list = Inl AssertionError"
    with Inr have "map_raising (\<lambda>img. single_image_info w img image_types paths_list)
                     random_images = Inl AssertionError"
      by (simp add: gather_specific_choice)
    from map_raising_Inl [OF this] show False
      by (simp add: single_image_info_no_assertion)
  qed
qed

lemma plot_specific_no_assertion: "plot_specific dims images \<noteq> Inl AssertionError"
proof
  assume a: "plot_specific dims images = Inl AssertionError"
  show False
  proof (cases "subplots (dims ! 0) (dims ! 1)")
    case (Inl e)
    with a show False by (auto simp: plot_specific_def subplots_def split: if_splits)
  next
    case (Inr ax)
    show False
    proof (cases ax)
      case SingleAxes
      with a Inr show False by (simp add: plot_specific_def)
    next
      case (AxesArray n)
      with a Inr have "map_raising (plot_specific_cell images) [0..<n] = Inl AssertionError"
        by (simp add: plot_specific_def)
      from map_raising_Inl [OF this] show False
        by (auto simp: plot_specific_cell_def split: if_splits)
    qed
  qed
qed

lemma plot_specific_nonpositive:
  "r \<le> 0 \<or> c \<le> 0 \<Longrightarrow> \<exists>m. plot_specific [r, c] images = Inl (ValueError m)"
  by (auto simp: plot_specific_def subplots_def)

lemma plot_specific_Inr:
  "plot_specific [r, c] images = Inr cs \<Longrightarrow> 0 < r \<and> 0 < c"
  by (auto simp: plot_specific_def subplots_def split: if_splits)

lemma plot_specific_cells:
  "map_raising (plot_specific_cell images) [0..<length images]
     = Inr (map (\<lambda>a. \<lparr>title = None, shown = a\<rparr>) images)"
proof -
  have "map_raising (plot_specific_cell images) [0..<length images]
          = Inr (map (\<lambda>indx. \<lparr>title = None, shown = images ! indx\<rparr>) [0..<length images])"
    by (rule map_raising_all) (simp add: plot_specific_cell_def)
  also have "map (\<lambda>indx. \<lparr>title = None, shown = images ! indx\<rparr>) [0..<length images]
               = map (\<lambda>a. \<lparr>title = None, shown = a\<rparr>) (map (\<lambda>indx. images ! indx) [0..<length images])"
    by simp
  also have "map (\<lambda>indx. images ! indx) [0..<length images] = images"
    by (rule map_nth)
  finally show ?thesis .
qed

lemma plot_specific_ok:
  assumes "0 < r" and "0 < c" and "r * c \<noteq> 1" and "length images = nat (r * c)"
  shows "plot_specific [r, c] images = Inr (map (\<lambda>a. \<lparr>title = None, shown = a\<rparr>) images)"
proof -
  from assms(1-3) have "\<not> (r = 1 \<and> c = 1)" by auto
  with assms(1,2) have "subplots r c = Inr (AxesArray (nat r * nat c))"
    by (simp add: subplots_def)
  moreover from assms(1,2,4) have "nat r * nat c = length images"
    by (simp add: nat_mult_distrib)
  ultimately show ?thesis
    by (simp add: plot_specific_def plot_specific_cells)
qed

lemma random_choice_too_many:
  "int (length a) < n \<Longrightarrow>
   (\<exists>m. random_choice w a n = Inl (ValueError m))
   \<or> (2 ^ 63 \<le> n \<and> random_choice w a n = Inl OverflowError)"
  by (auto simp: random_choice_def)

lemma random_choice_Inr:
  "random_choice w a n = Inr xs \<Longrightarrow> 0 \<le> n \<and> n \<le> int (length a)"
  by (auto simp: random_choice_def split: if_splits)

text \<open>
  Claim C3. \<open>show_random_specific_images\<close> fails on every shape that is not a tuple or
  list of two elements: these, and only these, fail its assertions. It fails on every
  shape of two integers of which one is not positive, in the sampling or, when the
  product is a sample that can be drawn, in the grid of the plotting library. It fails
  whenever the product exceeds the number of identifiers, in the sampling. So a run that
  succeeds has a shape of two positive integers whose product the identifiers cover.
  Such a shape, other than one by one, does succeed when the drawn identifiers decode:
  the figure shows their images in the order of the draw, and the drawn positions are
  pairwise distinct positions of the identifier list, as many as the product.
\<close>

theorem specific_shape_checks:
  "((show_random_specific_images w sz image_ids image_types paths_list sv = Inl AssertionError)
      = (\<forall>r c. sequence_items sz \<noteq> Some [r, c]))
   \<and> (sequence_items sz = Some [r, c] \<and> (r \<le> 0 \<or> c \<le> 0)
      \<longrightarrow> (\<exists>e. show_random_specific_images w sz image_ids image_types paths_list sv = Inl e))
   \<and> (sequence_items sz = Some [r, c] \<and> int (length image_ids) < r * c
      \<longrightarrow> (\<exists>m. show_random_specific_images w sz image_ids image_types paths_list sv
                  = Inl (ValueError m))
          \<or> (2 ^ 63 \<le> r * c
              \<and> show_random_specific_images w sz image_ids image_types paths_list sv
                  = Inl OverflowError))
   \<and> (show_random_specific_images w sz image_ids image_types paths_list sv = Inr fig
      \<longrightarrow> (\<exists>r c. sequence_items sz = Some [r, c] \<and> 0 < r \<and> 0 < c
                \<and> r * c \<le> int (length image_ids)))
   \<and> (sequence_items sz = Some [r, c] \<and> 0 < r \<and> 0 < c \<and> r * c \<noteq> 1
        \<and> r * c \<le> int (length image_ids) \<and> r * c < 2 ^ 63
        \<and> valid_permutation w (length image_ids)
        \<and> (\<forall>i \<in> set (drawn w (r * c)).
              single_image_info w (image_ids ! i) image_types paths_list = Inr (image_at i))
      \<longrightarrow> show_random_specific_images w sz image_ids image_types paths_list sv
            = Inr \<lparr>cells = map (\<lambda>i. \<lparr>title = None, shown = image_at i\<rparr>) (drawn w (r * c)),
                   saved_to = saved_figure w sv ''inspected-specific.png''\<rparr>
        \<and> length (drawn w (r * c)) = nat (r * c) \<and> distinct (drawn w (r * c))
        \<and> list_all (\<lambda>i. i < length image_ids) (drawn w (r * c)))"
proof (intro conjI impI)
  show "(show_random_specific_images w sz image_ids image_types paths_list sv = Inl AssertionError)
      = (\<forall>r c. sequence_items sz \<noteq> Some [r, c])"
  proof
    assume a: "show_random_specific_images w sz image_ids image_types paths_list sv
                 = Inl AssertionError"
    show "\<forall>r c. sequence_items sz \<noteq> Some [r, c]"
    proof (intro allI notI)
      fix r c
      assume two: "sequence_items sz = Some [r, c]"
      from a show False
        using gather_specific_no_assertion [of w r c image_ids image_types paths_list]
          plot_specific_no_assertion [of "[r, c]"]
        by (auto simp: specific_two [OF two] split: sum.splits)
    qed
  next
    assume "\<forall>r c. sequence_items sz \<noteq> Some [r, c]"
    then show "show_random_specific_images w sz image_ids image_types paths_list sv
                 = Inl AssertionError"
      by (rule specific_not_two)
  qed
next
  assume h: "sequence_items sz = Some [r, c] \<and> (r \<le> 0 \<or> c \<le> 0)"
  then have two: "sequence_items sz = Some [r, c]" and np: "r \<le> 0 \<or> c \<le> 0" by simp_all
  show "\<exists>e. show_random_specific_images w sz image_ids image_types paths_list sv = Inl e"
  proof (cases "gather_specific w [r, c] image_ids image_types paths_list")
    case (Inl e)
    then show ?thesis by (simp add: specific_two [OF two])
  next
    case (Inr images)
    from plot_specific_nonpositive [OF np, of images] obtain m where
      "plot_specific [r, c] images = Inl (ValueError m)" by blast
    with Inr show ?thesis by (simp add: specific_two [OF two])
  qed
next
  assume h: "sequence_items sz = Some [r, c] \<and> int (length image_ids) < r * c"
  then have two: "sequence_items sz = Some [r, c]" and m: "int (length image_ids) < r * c"
    by simp_all
  from random_choice_too_many [OF m, of w]
  show "(\<exists>m. show_random_specific_images w sz image_ids image_types paths_list sv
                  = Inl (ValueError m))
          \<or> (2 ^ 63 \<le> r * c
              \<and> show_random_specific_images w sz image_ids image_types paths_list sv
                  = Inl OverflowError)"
    by (auto simp: specific_two [OF two] gather_specific_choice)
next
  assume ok: "show_random_specific_images w sz image_ids image_types paths_list sv = Inr fig"
  have "\<not> (\<forall>r c. sequence_items sz \<noteq> Some [r, c])"
  proof
    assume "\<forall>r c. sequence_items sz \<noteq> Some [r, c]"
    from specific_not_two [OF this, of w image_ids image_types paths_list sv] ok
    show False by simp
  qed
  then obtain r c where two: "sequence_items sz = Some [r, c]" by blast
  from ok obtain images cs where
    g: "gather_specific w [r, c] image_ids image_types paths_list = Inr images"
    and p: "plot_specific [r, c] images = Inr cs"
    by (auto simp: specific_two [OF two] split: sum.splits)
  from g obtain xs where "random_choice w image_ids (r * c) = Inr xs"
    by (auto simp: gather_specific_choice split: sum.splits)
  from random_choice_Inr [OF this] have "r * c \<le> int (length image_ids)" by simp
  with plot_specific_Inr [OF p] two
  show "\<exists>r c. sequence_items sz = Some [r, c] \<and> 0 < r \<and> 0 < c
                \<and> r * c \<le> int (length image_ids)"
    by blast
next
  assume h: "sequence_items sz = Some [r, c] \<and> 0 < r \<and> 0 < c \<and> r * c \<noteq> 1
        \<and> r * c \<le> int (length image_ids) \<and> r * c < 2 ^ 63
        \<and> valid_permutation w (length image_ids)
        \<and> (\<forall>i \<in> set (drawn w (r * c)).
              single_image_info w (image_ids ! i) image_types paths_list = Inr (image_at i))"
  then have two: "sequence_items sz = Some [r, c]"
    and v: "valid_permutation w (length image_ids)" by simp_all
  from h have n: "nat (r * c) \<le> length image_ids" by linarith
  from h have pos: "0 \<le> r * c" by simp
  from h have small: "r * c < 2 ^ 63" by simp
  note d = valid_permutation_drawn [OF v n]
  from d(1) show "length (drawn w (r * c)) = nat (r * c)" .
  from d(2) show "distinct (drawn w (r * c))" .
  from d(3) show "list_all (\<lambda>i. i < length image_ids) (drawn w (r * c))"
    by (simp add: list_all_iff)
  have "map_raising (\<lambda>i. single_image_info w (image_ids ! i) image_types paths_list)
          (drawn w (r * c)) = Inr (map image_at (drawn w (r * c)))"
    using h by (intro map_raising_all) simp
  then have g: "gather_specific w [r, c] image_ids image_types paths_list
                  = Inr (map image_at (drawn w (r * c)))"
    by (simp add: gather_specific_choice random_choice_ok [OF pos small n] map_raising_map)
  have "plot_specific [r, c] (map image_at (drawn w (r * c)))
          = Inr (map (\<lambda>a. \<lparr>title = None, shown = a\<rparr>) (map image_at (drawn w (r * c))))"
    using h d(1) by (intro plot_specific_ok) simp_all
  with g show "show_random_specific_images w sz image_ids image_types paths_list sv
            = Inr \<lparr>cells = map (\<lambda>i. \<lparr>title = None, shown = image_at i\<rparr>) (drawn w (r * c)),
                   saved_to = saved_figure w sv ''inspected-specific.png''\<rparr>"
    by (simp add: specific_two [OF two] comp_def)
qed

text \<open>
  In the example a value that is no sequence and a list of three elements fail the
  assertions, the shape \<open>(-2, -3)\<close> is refused by the grid, a shape of nine cells exceeds
  the six identifiers, and a shape of two rows and three columns shows the six images in
  the order of the draw.
\<close>

theorem specific_shape_checks_witness:
  "show_random_specific_images example_world PyOther example_ids ''rgb'' example_train True
     = Inl AssertionError
   \<and> show_random_specific_images example_world (PyList [1, 2, 3]) example_ids ''rgb''
       example_train True = Inl AssertionError
   \<and> show_random_specific_images example_world (PyTuple [- 2, - 3]) example_ids ''rgb''
       example_train True = Inl (ValueError ''Number of rows must be a positive integer'')
   \<and> (\<exists>m. show_random_specific_images example_world (PyTuple [3, 3]) example_ids ''rgb''
             example_train True = Inl (ValueError m))
   \<and> show_random_specific_images example_world (PyList [2, 3]) example_ids ''rgb''
       example_train True
     = Inr \<lparr>cells = [\<lparr>title = None, shown = [[60]]\<rparr>, \<lparr>title = None, shown = [[40]]\<rparr>,
                     \<lparr>title = None, shown = [[20]]\<rparr>, \<lparr>title = None, shown = [[10]]\<rparr>,
                     \<lparr>title = None, shown = [[30]]\<rparr>, \<lparr>title = None, shown = [[50]]\<rparr>],
            saved_to = Some ''/repo/images/inspected-specific.png''\<rparr>"
proof -
  note t = specific_shape_checks [of example_world _ example_ids "''rgb''" example_train True]
  have other: "show_random_specific_images example_world PyOther example_ids ''rgb''
          example_train True = Inl AssertionError"
    using t [of PyOther] by simp
  have three: "show_random_specific_images example_world (PyList [1, 2, 3]) example_ids ''rgb''
          example_train True = Inl AssertionError"
    using t [of "PyList [1, 2, 3]"] by simp
  from t [of "PyTuple [- 2, - 3]" "- 2" "- 3"]
  have "\<exists>e. show_random_specific_images example_world (PyTuple [- 2, - 3]) example_ids ''rgb''
          example_train True = Inl e"
    by simp
  moreover have "gather_specific example_world [- 2, - 3] example_ids ''rgb'' example_train
                   = Inr [[[60]], [[40]], [[20]], [[10]], [[30]], [[50]]]"
    by (simp add: gather_specific_def random_choice_def single_image_info_def image_open_def
          example_defs)
  ultimately have negative: "show_random_specific_images example_world (PyTuple [- 2, - 3])
          example_ids ''rgb'' example_train True
            = Inl (ValueError ''Number of rows must be a positive integer'')"
    by (simp add: show_random_specific_images_def plot_specific_def subplots_def)
  have nine: "\<exists>m. show_random_specific_images example_world (PyTuple [3, 3]) example_ids ''rgb''
             example_train True = Inl (ValueError m)"
    using t [of "PyTuple [3, 3]" 3 3] by (simp add: example_ids_def)
  have v: "valid_permutation example_world (length example_ids)"
    by (simp add: valid_permutation_def example_defs)
  have "\<forall>i \<in> set [5, 3, 1, 0, 2, 4].
             single_image_info example_world (example_ids ! i) ''rgb'' example_train
               = Inr (example_rgb i)"
    by (simp add: single_image_info_def image_open_def example_rgb_def example_defs)
  then have a: "\<forall>i \<in> set (drawn example_world (2 * 3)).
             single_image_info example_world (example_ids ! i) ''rgb'' example_train
               = Inr (example_rgb i)"
    by (simp add: example_drawn)
  have sf: "saved_figure example_world True ''inspected-specific.png''
              = Some ''/repo/images/inspected-specific.png''"
    by (simp add: saved_figure_def path_join_def endswith_def example_world_def)
  from t [of "PyList [2, 3]" 2 3 _ example_rgb] v a
  have "show_random_specific_images example_world (PyList [2, 3]) example_ids ''rgb''
          example_train True
        = Inr \<lparr>cells = map (\<lambda>i. \<lparr>title = None, shown = example_rgb i\<rparr>)
                         (drawn example_world (2 * 3)),
               saved_to = saved_figure example_world True ''inspected-specific.png''\<rparr>"
    by (simp add: example_ids_def)
  then have six: "show_random_specific_images example_world (PyList [2, 3]) example_ids ''rgb''
       example_train True
     = Inr \<lparr>cells = [\<lparr>title = None, shown = [[60]]\<rparr>, \<lparr>title = None, shown = [[40]]\<rparr>,
                     \<lparr>title = None, shown = [[20]]\<rparr>, \<lparr>title = None, shown = [[10]]\<rparr>,
                     \<lparr>title = None, shown = [[30]]\<rparr>, \<lparr>title = None, shown = [[50]]\<rparr>],
            saved_to = Some ''/repo/images/inspected-specific.png''\<rparr>"
    by (simp add: example_drawn sf example_rgb_def)
  from other three negative nine six show ?thesis by blast
qed

section \<open>The entry point\<close>

lemma invalid_mode_not_other:
  "invalid_mode \<noteq> AssertionError" "invalid_mode \<noteq> FileNotFoundError p"
  "AssertionError \<noteq> invalid_mode" "FileNotFoundError p \<noteq> invalid_mode"
  by (simp_all add: invalid_mode_def)

lemma get_image_names_train:
  "get_image_names w ''train'' d =
     (case directories w (rgb_dir d) of
        None \<Rightarrow> Inl AssertionError
      | Some names \<Rightarrow> Inr (map (\<lambda>name. take (length name - 4) name) names))"
  by (simp add: get_image_names_def rgb_dir_def split: option.splits)

lemma get_classes_dict_cases:
  "get_classes_dict w d =
     (case directories w (labels_dir d) of
        None \<Rightarrow> Inl (FileNotFoundError (labels_dir d))
      | Some items \<Rightarrow> Inr (classes_loop (platform w) items [(0, ''background'')] 1))"
  by (simp add: get_classes_dict_def labels_dir_def Let_def split: option.splits)

lemma load_json_files_cases:
  "load_json_files w d g =
     (case json_files w (path_join d ''train.json'') of
        None \<Rightarrow> (g, Some AssertionError)
      | Some tr \<Rightarrow>
          (case json_files w (path_join d ''val.json'') of
             None \<Rightarrow> (g\<lparr>train_data_paths := Some tr\<rparr>, Some AssertionError)
           | Some va \<Rightarrow>
               (case json_files w (path_join d ''test.json'') of
                  None \<Rightarrow> (g\<lparr>train_data_paths := Some tr, val_data_paths := Some va\<rparr>,
                            Some AssertionError)
                | Some te \<Rightarrow>
                    (g\<lparr>train_data_paths := Some tr, val_data_paths := Some va,
                       test_data_paths := Some te, complete_paths := Some (tr @ va @ te)\<rparr>,
                     None))))"
  by (simp add: load_json_files_def append_all_eq Let_def split: option.splits)

text \<open>
  Claim C2, as stated, has an invalid mode abort the run before any manifest is read, any
  directory listed or any class dictionary built. In the example the mode \<open>random\<close> is
  refused only after the three manifests have been read and merged, the image directory
  listed and the class dictionary built.
\<close>

theorem invalid_mode_after_work:
  "snd (main example_world (example_args ''random'')) = Inl invalid_mode
   \<and> complete_paths (fst (main example_world (example_args ''random'')))
       = Some (example_train @ [example_record ''g'' 7, example_record ''h'' 8])
   \<and> image_files (fst (main example_world (example_args ''random''))) = Some example_ids
   \<and> label_dict (fst (main example_world (example_args ''random'')))
       = Some [(0, ''background''), (1, ''water''), (2, ''weed_cluster'')]"
  by (simp add: main_def load_json_files_cases get_image_names_train get_classes_dict_cases
        inspect_def rgb_dir_def labels_dir_def path_join_def endswith_def example_defs)

text \<open>
  Claim C2, as amended. With a mode that is neither \<open>specific\<close> nor \<open>general\<close> the run
  always ends with an exception. It is the invalid-mode \<open>ValueError\<close> exactly when the
  three manifests and the two dataset directories are there, and then the merged table,
  the image names and the class dictionary have been built before it is raised; when
  one of them is missing, the run ends with another exception.
\<close>

theorem invalid_mode_raised_last:
  assumes "arg_mode args \<noteq> ''specific''" and "arg_mode args \<noteq> ''general''"
  shows "((snd (main w args) = Inl invalid_mode)
           = (json_files w (manifest_path w ''train.json'') \<noteq> None
              \<and> json_files w (manifest_path w ''val.json'') \<noteq> None
              \<and> json_files w (manifest_path w ''test.json'') \<noteq> None
              \<and> directories w (rgb_dir (arg_directory args)) \<noteq> None
              \<and> directories w (labels_dir (arg_directory args)) \<noteq> None))
       \<and> (snd (main w args) = Inl invalid_mode
            \<longrightarrow> complete_paths (fst (main w args)) \<noteq> None
              \<and> image_files (fst (main w args)) \<noteq> None
              \<and> label_dict (fst (main w args)) \<noteq> None)
       \<and> (\<exists>e. snd (main w args) = Inl e)"
  using assms
  by (auto simp: main_def load_json_files_cases get_image_names_train get_classes_dict_cases
        inspect_def manifest_path_def invalid_mode_not_other Let_def
      split: option.splits)

text \<open>In the example the mode \<open>both\<close> is refused after the work is done.\<close>

theorem invalid_mode_raised_last_witness:
  "arg_mode (example_args ''both'') \<noteq> ''specific''
   \<and> arg_mode (example_args ''both'') \<noteq> ''general''
   \<and> snd (main example_world (example_args ''both'')) = Inl invalid_mode
   \<and> complete_paths (fst (main example_world (example_args ''both''))) \<noteq> None
   \<and> image_files (fst (main example_world (example_args ''both''))) \<noteq> None
   \<and> label_dict (fst (main example_world (example_args ''both''))) \<noteq> None"
proof -
  have a: "arg_mode (example_args ''both'') \<noteq> ''specific''"
    and b: "arg_mode (example_args ''both'') \<noteq> ''general''"
    by (simp_all add: example_args_def)
  have files: "json_files example_world (manifest_path example_world ''train.json'') \<noteq> None"
    "json_files example_world (manifest_path example_world ''val.json'') \<noteq> None"
    "json_files example_world (manifest_path example_world ''test.json'') \<noteq> None"
    by (simp_all add: manifest_path_def path_join_def endswith_def example_world_def)
  have dirs: "directories example_world (rgb_dir (arg_directory (example_args ''both''))) \<noteq> None"
    "directories example_world (labels_dir (arg_directory (example_args ''both''))) \<noteq> None"
    by (simp_all add: rgb_dir_def labels_dir_def path_join_def endswith_def example_world_def
          example_args_def)
  from invalid_mode_raised_last [OF a b, of example_world] files dirs a b
  show ?thesis by blast
qed

section \<open>The model container\<close>

text \<open>
  Claim C10. On a dictionary \<open>_validate_custom_objects\<close> is the identity: whatever the
  dictionary holds, it is returned, and nothing is raised.
\<close>

theorem validate_custom_objects_dict:
  "validate_custom_objects (Dict d) = Inr d"
  by simp

text \<open>
  Claim C9, as stated, has every string other than \<open>scl\<close>, \<open>surface\<close> and \<open>dice\<close> fail.
  The shortcut is compared after \<open>lower\<close>, so the string \<open>DICE\<close>, which is none of the
  three, gives the dice-loss mapping.
\<close>

theorem validate_custom_objects_upper_case:
  "''DICE'' \<notin> {''scl'', ''surface'', ''dice''}
   \<and> validate_custom_objects (Str ''DICE'') = Inr [(''dice_loss_2d'', dice_loss_2d)]"
  by (simp add: lower_def lower_char_def)

text \<open>
  Claim C9, as amended. \<open>scl\<close> and \<open>surface\<close> give the same mapping, to the
  surface-channel-loss function, and \<open>dice\<close> gives the dice-loss function; so does every
  string whose lower-case form is one of them. A string whose lower-case form is none of
  the three fails with the \<open>ValueError\<close> whose message is \<open>Received invalid custom
  object shortcut keyword\<close>, the string as it was given, and a full stop.
\<close>

theorem validate_shortcuts:
  "validate_custom_objects (Str ''scl'') = Inr [(''surface_loss_2d'', surface_channel_loss_2d)]
   \<and> validate_custom_objects (Str ''surface'') = Inr [(''surface_loss_2d'', surface_channel_loss_2d)]
   \<and> validate_custom_objects (Str ''dice'') = Inr [(''dice_loss_2d'', dice_loss_2d)]
   \<and> (lower s = ''dice'' \<longrightarrow> validate_custom_objects (Str s) = Inr [(''dice_loss_2d'', dice_loss_2d)])
   \<and> (lower s = ''scl'' \<or> lower s = ''surface'' \<longrightarrow>
        validate_custom_objects (Str s) = Inr [(''surface_loss_2d'', surface_channel_loss_2d)])
   \<and> (lower s \<notin> {''dice'', ''scl'', ''surface''} \<longrightarrow>
        validate_custom_objects (Str s)
          = Inl (ValueError (''Received invalid custom object shortcut keyword '' @ s @ ''.'')))"
  by (simp add: lower_def lower_char_def invalid_shortcut_def)

theorem validate_shortcuts_witness:
  "lower ''unknown'' \<notin> {''dice'', ''scl'', ''surface''}
   \<and> validate_custom_objects (Str ''unknown'')
       = Inl (ValueError ''Received invalid custom object shortcut keyword unknown.'')
   \<and> lower ''Dice'' = ''dice''
   \<and> validate_custom_objects (Str ''Dice'') = Inr [(''dice_loss_2d'', dice_loss_2d)]
   \<and> lower ''SCL'' = ''scl''
   \<and> validate_custom_objects (Str ''SCL'') = Inr [(''surface_loss_2d'', surface_channel_loss_2d)]"
proof -
  have a: "lower ''unknown'' \<notin> {''dice'', ''scl'', ''surface''}"
    by (simp add: lower_def lower_char_def)
  have b: "lower ''Dice'' = ''dice''" by (simp add: lower_def lower_char_def)
  have c: "lower ''SCL'' = ''scl''" by (simp add: lower_def lower_char_def)
  from validate_shortcuts [of "''unknown''"] a
  have "validate_custom_objects (Str ''unknown'')
          = Inl (ValueError ''Received invalid custom object shortcut keyword unknown.'')"
    by simp
  with validate_shortcuts [of "''Dice''"] validate_shortcuts [of "''SCL''"] a b c
  show ?thesis by blast
qed

text \<open>
  Claim C5, as stated, has every token that ends in no model-file extension and is in
  none of the three shortcut groups leave the model unset. The token is compared after
  \<open>lower\<close>: \<open>FINAL\<close> is in no group, and the container loads the stage-3 model.
\<close>

theorem initialize_model_upper_case:
  "\<not> endswith ''FINAL'' ''.hdf5'' \<and> \<not> endswith ''FINAL'' ''.h5''
   \<and> ''FINAL'' \<notin> set (stage1_names @ stage2_names @ stage3_names)
   \<and> init_FarmlandAnomalyModel example_store ''FINAL'' [] =
       Inr \<lparr>self_model =
              Some (Model ''/repo/logs/save/Model-Dice-SCL-Dice-60.hdf5''
                      (Some [(''dice_loss_2d'', dice_loss_2d)]))\<rparr>"
  by (simp add: init_FarmlandAnomalyModel_def initialize_model_def endswith_def lower_def
        lower_char_def stage1_names_def stage2_names_def stage3_names_def load_shortcut_def
        load_into_def load_model_def example_store_def path_join_def)

text \<open>
  Claim C5, as amended. For every token that ends in neither \<open>.hdf5\<close> nor \<open>.h5\<close> and
  whose lower-case form is in none of the three shortcut groups, \<open>_initialize_model\<close>
  returns without an exception and leaves the container as it was: after the constructor
  the model is \<open>None\<close>.
\<close>

theorem unrecognized_token_noop:
  assumes "\<not> endswith mdl ''.hdf5''" and "\<not> endswith mdl ''.h5''"
    and "lower mdl \<notin> set (stage1_names @ stage2_names @ stage3_names)"
  shows "initialize_model st self mdl kwargs = Inr self
       \<and> init_FarmlandAnomalyModel st mdl kwargs = Inr \<lparr>self_model = None\<rparr>"
  using assms by (simp add: initialize_model_def init_FarmlandAnomalyModel_def)

theorem unrecognized_token_noop_witness:
  "\<not> endswith ''banana'' ''.hdf5'' \<and> \<not> endswith ''banana'' ''.h5''
   \<and> lower ''banana'' \<notin> set (stage1_names @ stage2_names @ stage3_names)
   \<and> init_FarmlandAnomalyModel example_store ''banana'' [] = Inr \<lparr>self_model = None\<rparr>"
proof -
  have a: "\<not> endswith ''banana'' ''.hdf5''" by (simp add: endswith_def)
  have b: "\<not> endswith ''banana'' ''.h5''" by (simp add: endswith_def)
  have c: "lower ''banana'' \<notin> set (stage1_names @ stage2_names @ stage3_names)"
    by (simp add: lower_def lower_char_def stage1_names_def stage2_names_def stage3_names_def)
  from unrecognized_token_noop [OF a b c, of example_store "\<lparr>self_model = None\<rparr>" "[]"] a b c
  show ?thesis by simp
qed

end
